theory Spec2Isabelle
  imports Main "HOL-Library.Word"
begin

section \<open>The contact auditor (cmd/contact-auditor/main.go)\<close>

text \<open>
  A shallow embedding of the audit pipeline of \<^verbatim>\<open>cmd/contact-auditor/main.go\<close>:
  \<^verbatim>\<open>unmarshalContact\<close>, \<^verbatim>\<open>validateContacts\<close>, \<^verbatim>\<open>beginAuditQuery\<close>,
  \<^verbatim>\<open>writeResults\<close> and \<^verbatim>\<open>run\<close>.

  Go strings and byte slices are byte sequences: \<^typ>\<open>string\<close>. An \<^verbatim>\<open>int64\<close> is a
  \<^typ>\<open>64 word\<close> read as a signed number. A Go \<^verbatim>\<open>error\<close> is the text of its
  \<^verbatim>\<open>Error()\<close> method, and a possibly nil error is a \<^typ>\<open>string option\<close>
  (\<^term>\<open>None\<close> is nil). A \<^verbatim>\<open>[]string\<close> is a \<^typ>\<open>string list\<close>; the nil slice and
  the empty slice are both \<^term>\<open>[]\<close>, since the program only ranges over the slice.
\<close>

subsection \<open>Package strings and fmt\<close>

definition TAB :: string where
  "TAB = [CHR 0x09]"

definition NL :: string where
  "NL = [CHR 0x0A]"

text \<open>\<^verbatim>\<open>strings.HasPrefix(s, prefix)\<close>: \<^verbatim>\<open>len(s) >= len(prefix) && s[:len(prefix)] == prefix\<close>.\<close>

definition HasPrefix :: "string \<Rightarrow> string \<Rightarrow> bool" where
  "HasPrefix s p = (length p \<le> length s \<and> take (length p) s = p)"

text \<open>\<^verbatim>\<open>strings.TrimPrefix(s, prefix)\<close>: \<^verbatim>\<open>s[len(prefix):]\<close> when \<^verbatim>\<open>s\<close> has the prefix, else \<^verbatim>\<open>s\<close>.\<close>

definition TrimPrefix :: "string \<Rightarrow> string \<Rightarrow> string" where
  "TrimPrefix s p = (if HasPrefix s p then drop (length p) s else s)"

text \<open>The decimal digits of a natural number, most significant first.\<close>

fun digits :: "nat \<Rightarrow> string" where
  "digits n =
     (if n < 10 then [''0123456789'' ! n]
      else digits (n div 10) @ [''0123456789'' ! (n mod 10)])"

declare digits.simps [simp del]

text \<open>The verb \<^verbatim>\<open>%d\<close> of package fmt on an \<^verbatim>\<open>int64\<close>: signed decimal, no padding.\<close>

definition fmt_d :: "64 word \<Rightarrow> string" where
  "fmt_d i = (if sint i < 0 then CHR ''-'' # digits (nat (- sint i)) else digits (nat (sint i)))"

subsection \<open>The libraries the auditor calls\<close>

text \<open>
  Three functions the auditor calls are defined outside the file: \<^verbatim>\<open>json.Unmarshal\<close>
  (package encoding/json), \<^verbatim>\<open>policy.ValidEmail\<close> (the e-mail syntax policy) and the verb
  \<^verbatim>\<open>%q\<close> of package fmt (\<^verbatim>\<open>strconv.Quote\<close>). They are parameters of the model, so
  every theorem holds for whatever they compute.
  \<^item> \<open>json_Unmarshal data v\<close> is \<^verbatim>\<open>json.Unmarshal(data, &v)\<close> on a \<^verbatim>\<open>[]string\<close>: the
    value left in \<^verbatim>\<open>v\<close> and the error returned.
  \<^item> \<open>ValidEmail address\<close> is the error of \<^verbatim>\<open>policy.ValidEmail(address)\<close>.
  \<^item> \<open>fmt_q s\<close> is \<^verbatim>\<open>s\<close> as \<^verbatim>\<open>%q\<close> prints it.
\<close>

record libs =
  json_Unmarshal :: "string \<Rightarrow> string list \<Rightarrow> string list \<times> string option"
  ValidEmail :: "string \<Rightarrow> string option"
  fmt_q :: "string \<Rightarrow> string"

text \<open>
  Whether a write fails is decided by the destination. \<open>Print_err n\<close> is the error of the
  call of \<^verbatim>\<open>fmt.Print\<close> that follows \<open>n\<close> earlier ones, \<open>WriteString_err n\<close> the same
  for \<^verbatim>\<open>resultsFile.WriteString\<close>.
\<close>

record io =
  Print_err :: "nat \<Rightarrow> string option"
  WriteString_err :: "nat \<Rightarrow> string option"

subsection \<open>Data\<close>

text \<open>\<^verbatim>\<open>type result struct { id int64; contacts []string; createdAt string }\<close>\<close>

record result =
  result_id :: "64 word"
  result_contacts :: "string list"
  result_createdAt :: string

text \<open>
  What the program does to the world, in order: a line handed to the logger, a call of
  \<^verbatim>\<open>fmt.Print\<close> or of \<^verbatim>\<open>resultsFile.WriteString\<close> with its argument and its error, a
  value sent on \<^verbatim>\<open>resChan\<close>, and \<^verbatim>\<open>close(resChan)\<close>. A send is taken to complete:
  the channel is open and its receiver takes every value.
\<close>

datatype event =
    LogInfo string
  | LogErr string
  | Print string "string option"
  | WriteString string "string option"
  | Send result
  | ChanClose

type_synonym trace = "event list"

text \<open>
  One step of the cursor \<^verbatim>\<open>*sql.Rows\<close>: \<^verbatim>\<open>rows.Next()\<close> is true and \<^verbatim>\<open>rows.Scan\<close> either
  fails or fills \<^verbatim>\<open>id\<close>, \<^verbatim>\<open>contact\<close> and \<^verbatim>\<open>createdAt\<close>. A cursor is its steps up to the
  one where \<^verbatim>\<open>rows.Next()\<close> is false, and the error of \<^verbatim>\<open>rows.Close()\<close>.
\<close>

datatype row = ScanErr string | Row "64 word" string string

type_synonym cursor = "row list \<times> string option"

text \<open>
  \<^verbatim>\<open>type contactAuditor struct { db; resultsFile; writeToStdout; logger }\<close>. The database
  is what it answers to the audit query: an error or a cursor. \<open>resultsFile\<close> is whether
  the file is not nil. The logger's lines are events of the trace.
\<close>

record contactAuditor =
  db :: "string + cursor"
  resultsFile :: bool
  writeToStdout :: bool

subsection \<open>unmarshalContact\<close>

definition unmarshalContact :: "libs \<Rightarrow> string \<Rightarrow> string list \<times> string option" where
  "unmarshalContact L contact =
     (case json_Unmarshal L contact [] of
        (contacts, Some err) \<Rightarrow> ([], Some err)
      | (contacts, None) \<Rightarrow> (contacts, None))"

subsection \<open>validateContacts\<close>

text \<open>The line \<^verbatim>\<open>"%d\t%s\tvalidation\t%q\t%q\n"\<close> of \<^verbatim>\<open>id, createdAt, contact, prob\<close>.\<close>

definition problem_line :: "libs \<Rightarrow> 64 word \<Rightarrow> string \<Rightarrow> string \<Rightarrow> string \<Rightarrow> string" where
  "problem_line L i createdAt contact prob =
     fmt_d i @ TAB @ createdAt @ TAB @ ''validation'' @ TAB @ fmt_q L contact @ TAB
       @ fmt_q L prob @ NL"

text \<open>The helper \<^verbatim>\<open>writeProb\<close>: the line is appended to the buffer \<^verbatim>\<open>probsBuff\<close>.\<close>

definition writeProb :: "libs \<Rightarrow> 64 word \<Rightarrow> string \<Rightarrow> string \<Rightarrow> string \<Rightarrow> string \<Rightarrow> string" where
  "writeProb L i createdAt contact prob probsBuff =
     probsBuff @ problem_line L i createdAt contact prob"

text \<open>
  The loop over \<^verbatim>\<open>contacts\<close>. Its state is the buffer \<^verbatim>\<open>probsBuff\<close> and, as a history
  variable the source does not have, the arguments \<^verbatim>\<open>policy.ValidEmail\<close> has been called
  with, in order.
\<close>

fun validate_range ::
  "libs \<Rightarrow> 64 word \<Rightarrow> string \<Rightarrow> string list \<Rightarrow> string \<times> string list \<Rightarrow> string \<times> string list"
where
  "validate_range L i createdAt [] st = st"
| "validate_range L i createdAt (contact # rest) (probsBuff, calls) =
     (if HasPrefix contact ''mailto:'' then
        (case ValidEmail L (TrimPrefix contact ''mailto:'') of
           Some err \<Rightarrow>
             validate_range L i createdAt rest
               (writeProb L i createdAt contact err probsBuff,
                calls @ [TrimPrefix contact ''mailto:''])
         | None \<Rightarrow>
             validate_range L i createdAt rest
               (probsBuff, calls @ [TrimPrefix contact ''mailto:'']))
      else
        validate_range L i createdAt rest
          (writeProb L i createdAt contact ''missing 'mailto:' prefix'' probsBuff, calls))"

definition validateContacts :: "libs \<Rightarrow> 64 word \<Rightarrow> string \<Rightarrow> string list \<Rightarrow> string option" where
  "validateContacts L i createdAt contacts =
     (let probsBuff = fst (validate_range L i createdAt contacts ([], []))
      in if length probsBuff \<noteq> 0 then Some probsBuff else None)"

text \<open>The calls of \<^verbatim>\<open>policy.ValidEmail\<close> one call of \<^verbatim>\<open>validateContacts\<close> makes.\<close>

definition ValidEmail_calls :: "libs \<Rightarrow> 64 word \<Rightarrow> string \<Rightarrow> string list \<Rightarrow> string list" where
  "ValidEmail_calls L i createdAt contacts =
     snd (validate_range L i createdAt contacts ([], []))"

subsection \<open>beginAuditQuery and writeResults\<close>

definition beginAuditQuery :: "contactAuditor \<Rightarrow> string + cursor" where
  "beginAuditQuery c = (case db c of Inl err \<Rightarrow> Inl err | Inr rows \<Rightarrow> Inr rows)"

fun is_Print :: "event \<Rightarrow> bool" where
  "is_Print (Print s e) = True"
| "is_Print ev = False"

fun is_WriteString :: "event \<Rightarrow> bool" where
  "is_WriteString (WriteString s e) = True"
| "is_WriteString ev = False"

text \<open>The first half of \<^verbatim>\<open>writeResults\<close>: the write to stdout, logged when it fails.\<close>

definition write_stdout :: "io \<Rightarrow> contactAuditor \<Rightarrow> string \<Rightarrow> trace \<Rightarrow> trace" where
  "write_stdout W c res t =
     (if writeToStdout c then
        (case Print_err W (length (filter is_Print t)) of
           Some err \<Rightarrow>
             t @ [Print res (Some err),
                  LogErr (''Error while writing result to stdout: '' @ err)]
         | None \<Rightarrow> t @ [Print res None])
      else t)"

text \<open>The second half: the write to the results file, logged when it fails.\<close>

definition write_file :: "io \<Rightarrow> contactAuditor \<Rightarrow> string \<Rightarrow> trace \<Rightarrow> trace" where
  "write_file W c res t =
     (if resultsFile c then
        (case WriteString_err W (length (filter is_WriteString t)) of
           Some err \<Rightarrow>
             t @ [WriteString res (Some err),
                  LogErr (''Error while writing result to file: '' @ err)]
         | None \<Rightarrow> t @ [WriteString res None])
      else t)"

definition writeResults :: "io \<Rightarrow> contactAuditor \<Rightarrow> string \<Rightarrow> trace \<Rightarrow> trace" where
  "writeResults W c res t = write_file W c res (write_stdout W c res t)"

subsection \<open>run\<close>

text \<open>The line \<^verbatim>\<open>"%d\t%s\tunmarshal\t%q\t%q\n"\<close> of \<^verbatim>\<open>id, createdAt, contact, err\<close>.\<close>

definition unmarshal_line :: "libs \<Rightarrow> 64 word \<Rightarrow> string \<Rightarrow> string \<Rightarrow> string \<Rightarrow> string" where
  "unmarshal_line L i createdAt contact err =
     fmt_d i @ TAB @ createdAt @ TAB @ ''unmarshal'' @ TAB @ fmt_q L contact @ TAB
       @ fmt_q L err @ NL"

text \<open>The body of the loop of \<^verbatim>\<open>run\<close>, after a successful \<^verbatim>\<open>rows.Scan\<close>.\<close>

definition audit_row ::
  "libs \<Rightarrow> io \<Rightarrow> contactAuditor \<Rightarrow> bool \<Rightarrow> 64 word \<Rightarrow> string \<Rightarrow> string \<Rightarrow> trace \<Rightarrow> trace"
where
  "audit_row L W c resChan i contact createdAt t =
     (let (contacts, err) = unmarshalContact L contact;
          t1 = (case err of
                  Some e \<Rightarrow> writeResults W c (unmarshal_line L i createdAt contact e) t
                | None \<Rightarrow> t);
          t2 = (case validateContacts L i createdAt contacts of
                  Some e \<Rightarrow> writeResults W c e t1
                | None \<Rightarrow> t1)
      in if resChan
         then t2 @ [Send \<lparr>result_id = i, result_contacts = contacts,
                           result_createdAt = createdAt\<rparr>]
         else t2)"

text \<open>
  The loop \<^verbatim>\<open>for rows.Next() { ... }\<close>: \<open>Some err\<close> is the \<^verbatim>\<open>return err\<close> after a failed
  \<^verbatim>\<open>rows.Scan\<close>, \<open>None\<close> is the loop's normal end.
\<close>

fun run_loop ::
  "libs \<Rightarrow> io \<Rightarrow> contactAuditor \<Rightarrow> bool \<Rightarrow> row list \<Rightarrow> trace \<Rightarrow> string option \<times> trace"
where
  "run_loop L W c resChan [] t = (None, t)"
| "run_loop L W c resChan (ScanErr err # rows) t = (Some err, t)"
| "run_loop L W c resChan (Row i contact createdAt # rows) t =
     run_loop L W c resChan rows (audit_row L W c resChan i contact createdAt t)"

text \<open>
  \<^verbatim>\<open>run(resChan)\<close> from the trace \<open>t\<close>: the error returned and the trace at the return.
  \<open>resChan\<close> is whether the channel is not nil.
\<close>

definition run ::
  "libs \<Rightarrow> io \<Rightarrow> contactAuditor \<Rightarrow> bool \<Rightarrow> trace \<Rightarrow> string option \<times> trace"
where
  "run L W c resChan t =
     (let t1 = t @ [LogInfo ''Beginning database query'']
      in case beginAuditQuery c of
           Inl err \<Rightarrow> (Some err, t1)
         | Inr (rows, close_err) \<Rightarrow>
             (case run_loop L W c resChan rows t1 of
                (Some err, t2) \<Rightarrow> (Some err, t2)
              | (None, t2) \<Rightarrow>
                  (case close_err of
                     Some err \<Rightarrow> (Some err, t2)
                   | None \<Rightarrow>
                       (None,
                        t2 @ [LogInfo ''Query completed successfully'']
                           @ (if resChan then [ChanClose] else [])))))"

section \<open>The report as the specification words it\<close>

text \<open>
  The reason a contact fails, by the two rules of the contact validator: a contact that
  does not begin with \<^verbatim>\<open>mailto:\<close> fails with the reason \<^verbatim>\<open>missing 'mailto:' prefix\<close>;
  otherwise the prefix is stripped and the contact fails when the e-mail syntax check
  rejects the remainder, with the check's message as the reason.
\<close>

definition spec_failure_reason :: "libs \<Rightarrow> string \<Rightarrow> string option" where
  "spec_failure_reason L contact =
     (if \<not> HasPrefix contact ''mailto:'' then Some ''missing 'mailto:' prefix''
      else ValidEmail L (drop 7 contact))"

text \<open>The failing contacts with their reasons, in the order of the contacts.\<close>

definition spec_failures :: "libs \<Rightarrow> string list \<Rightarrow> (string \<times> string) list" where
  "spec_failures L contacts =
     List.map_filter (\<lambda>c. map_option (Pair c) (spec_failure_reason L c)) contacts"

text \<open>
  One line of the report: the record id, a tab, createdAt, a tab, the token
  \<^verbatim>\<open>validation\<close>, a tab, the contact quoted, a tab, the reason quoted, a newline.
\<close>

definition spec_report_line :: "libs \<Rightarrow> 64 word \<Rightarrow> string \<Rightarrow> string \<times> string \<Rightarrow> string" where
  "spec_report_line L i createdAt f =
     fmt_d i @ [CHR 0x09] @ createdAt @ [CHR 0x09] @ ''validation'' @ [CHR 0x09]
       @ fmt_q L (fst f) @ [CHR 0x09] @ fmt_q L (snd f) @ [CHR 0x0A]"

text \<open>The text of the error of \<^verbatim>\<open>validateContacts\<close>, empty when the error is nil.\<close>

definition problems :: "libs \<Rightarrow> 64 word \<Rightarrow> string \<Rightarrow> string list \<Rightarrow> string" where
  "problems L i createdAt contacts =
     (case validateContacts L i createdAt contacts of None \<Rightarrow> [] | Some e \<Rightarrow> e)"

text \<open>
  Modelled from the spec: \<^verbatim>\<open>json.Unmarshal\<close> is package encoding/json, which is not among
  the repository's files. The spec names the null encoding as one of the two encodings of
  a record with no contacts; so the decoder turns the payload \<^verbatim>\<open>null\<close> into no contacts
  and returns no error (as encoding/json documents: the JSON null value unmarshals into a
  slice by setting it to nil).
\<close>

definition decodes_null :: "libs \<Rightarrow> bool" where
  "decodes_null L = (json_Unmarshal L ''null'' [] = ([], None))"

section \<open>Reading a trace\<close>

text \<open>The arguments of the calls of \<^verbatim>\<open>fmt.Print\<close>, in order.\<close>

fun printed :: "trace \<Rightarrow> string list" where
  "printed [] = []"
| "printed (Print s e # t) = s # printed t"
| "printed (ev # t) = printed t"

text \<open>The arguments of the calls of \<^verbatim>\<open>resultsFile.WriteString\<close>, in order.\<close>

fun filed :: "trace \<Rightarrow> string list" where
  "filed [] = []"
| "filed (WriteString s e # t) = s # filed t"
| "filed (ev # t) = filed t"

text \<open>The values sent on \<^verbatim>\<open>resChan\<close>, in order.\<close>

fun sends :: "trace \<Rightarrow> result list" where
  "sends [] = []"
| "sends (Send r # t) = r # sends t"
| "sends (ev # t) = sends t"

text \<open>The bytes stdout has taken: the arguments of the calls of \<^verbatim>\<open>fmt.Print\<close> that did not fail.\<close>

fun stdout_text :: "trace \<Rightarrow> string" where
  "stdout_text [] = []"
| "stdout_text (Print s None # t) = s @ stdout_text t"
| "stdout_text (ev # t) = stdout_text t"

text \<open>The bytes the results file has taken.\<close>

fun file_text :: "trace \<Rightarrow> string" where
  "file_text [] = []"
| "file_text (WriteString s None # t) = s @ file_text t"
| "file_text (ev # t) = file_text t"

section \<open>Reading a cursor\<close>

text \<open>The rows read before the first failing \<^verbatim>\<open>rows.Scan\<close>.\<close>

fun scanned :: "row list \<Rightarrow> (64 word \<times> string \<times> string) list" where
  "scanned [] = []"
| "scanned (ScanErr err # rows) = []"
| "scanned (Row i contact createdAt # rows) = (i, contact, createdAt) # scanned rows"

text \<open>The error of the first failing \<^verbatim>\<open>rows.Scan\<close>.\<close>

fun scan_error :: "row list \<Rightarrow> string option" where
  "scan_error [] = None"
| "scan_error (ScanErr err # rows) = Some err"
| "scan_error (Row i contact createdAt # rows) = scan_error rows"

text \<open>The steps of the cursor the database answers with; none when the query fails.\<close>

definition cursor_rows :: "string + cursor \<Rightarrow> row list" where
  "cursor_rows d = (case d of Inl err \<Rightarrow> [] | Inr (rows, close_err) \<Rightarrow> rows)"

text \<open>Whether a \<^verbatim>\<open>rows.Scan\<close> of the run fails, and whether its \<^verbatim>\<open>rows.Close\<close> does.\<close>

definition scan_fails :: "contactAuditor \<Rightarrow> bool" where
  "scan_fails c =
     (case db c of Inl err \<Rightarrow> False | Inr (rows, close_err) \<Rightarrow> scan_error rows \<noteq> None)"

definition close_fails :: "contactAuditor \<Rightarrow> bool" where
  "close_fails c =
     (case db c of
        Inl err \<Rightarrow> False
      | Inr (rows, close_err) \<Rightarrow> scan_error rows = None \<and> close_err \<noteq> None)"

text \<open>The strings the loop body hands to \<^verbatim>\<open>writeResults\<close> for one row, in order.\<close>

definition row_results :: "libs \<Rightarrow> 64 word \<times> string \<times> string \<Rightarrow> string list" where
  "row_results L r =
     (case r of (i, contact, createdAt) \<Rightarrow>
        (case snd (unmarshalContact L contact) of
           Some e \<Rightarrow> [unmarshal_line L i createdAt contact e]
         | None \<Rightarrow> [])
        @ (case validateContacts L i createdAt (fst (unmarshalContact L contact)) of
             Some e \<Rightarrow> [e]
           | None \<Rightarrow> []))"

text \<open>The value the loop body sends on \<^verbatim>\<open>resChan\<close> for one row.\<close>

definition row_result :: "libs \<Rightarrow> 64 word \<times> string \<times> string \<Rightarrow> result" where
  "row_result L r =
     (case r of (i, contact, createdAt) \<Rightarrow>
        \<lparr>result_id = i, result_contacts = fst (unmarshalContact L contact),
         result_createdAt = createdAt\<rparr>)"

section \<open>Example inputs\<close>

text \<open>
  Stand-ins for the three libraries, and a few auditors, on which the theorems below are
  run. They are examples only: every theorem is proved for all libraries.
  \<open>example_Quote\<close> quotes as \<^verbatim>\<open>%q\<close> does on printable ASCII, tab, newline and
  carriage return. \<open>example_ValidEmail\<close> rejects an address without \<^verbatim>\<open>@\<close>, with the
  message of \<^verbatim>\<open>policy.ValidEmail\<close> for an address it cannot parse.
  \<open>example_Unmarshal\<close> decodes the payloads named here as \<^verbatim>\<open>json.Unmarshal\<close> does and
  rejects every other one with the error \<^verbatim>\<open>json.Unmarshal\<close> gives for \<^verbatim>\<open>{\<close>.
\<close>

definition DQ :: string where
  "DQ = [CHR 0x22]"

fun example_quote_char :: "char \<Rightarrow> string" where
  "example_quote_char ch =
     (if ch = CHR 0x22 then [CHR 0x5C, CHR 0x22]
      else if ch = CHR 0x5C then [CHR 0x5C, CHR 0x5C]
      else if ch = CHR 0x0A then [CHR 0x5C, CHR ''n'']
      else if ch = CHR 0x0D then [CHR 0x5C, CHR ''r'']
      else if ch = CHR 0x09 then [CHR 0x5C, CHR ''t'']
      else [ch])"

definition example_Quote :: "string \<Rightarrow> string" where
  "example_Quote s = DQ @ concat (map example_quote_char s) @ DQ"

definition example_ValidEmail :: "string \<Rightarrow> string option" where
  "example_ValidEmail address =
     (if CHR ''@'' \<in> set address then None
      else Some (example_Quote address @ '' is not a valid e-mail address''))"

definition example_contacts :: "string list" where
  "example_contacts = [''mailto:a@example.com'', ''tel:+123'', ''mailto:not-an-email'']"

definition example_payload :: string where
  "example_payload =
     ''['' @ DQ @ ''mailto:a@example.com'' @ DQ @ '','' @ DQ @ ''tel:+123'' @ DQ @ '',''
       @ DQ @ ''mailto:not-an-email'' @ DQ @ '']''"

definition example_valid_contacts :: "string list" where
  "example_valid_contacts = [''mailto:a@example.com'', ''mailto:b@example.org'']"

definition example_valid_payload :: string where
  "example_valid_payload =
     ''['' @ DQ @ ''mailto:a@example.com'' @ DQ @ '','' @ DQ @ ''mailto:b@example.org'' @ DQ
       @ '']''"

definition example_Unmarshal :: "string \<Rightarrow> string list \<Rightarrow> string list \<times> string option" where
  "example_Unmarshal data v =
     (if data = ''null'' then ([], None)
      else if data = example_payload then (example_contacts, None)
      else if data = example_valid_payload then (example_valid_contacts, None)
      else (v, Some ''unexpected end of JSON input''))"

definition example_libs :: libs where
  "example_libs =
     \<lparr>json_Unmarshal = example_Unmarshal, ValidEmail = example_ValidEmail,
      fmt_q = example_Quote\<rparr>"

text \<open>Destinations that take every write, and a stdout that refuses the first one.\<close>

definition example_io :: io where
  "example_io = \<lparr>Print_err = (\<lambda>n. None), WriteString_err = (\<lambda>n. None)\<rparr>"

definition failing_io :: io where
  "failing_io =
     \<lparr>Print_err = (\<lambda>n. if n = 0 then Some ''write /dev/stdout: broken pipe'' else None),
      WriteString_err = (\<lambda>n. None)\<rparr>"

text \<open>
  Auditors writing to both destinations: over two rows, the first undecodable; the same
  with a failing \<^verbatim>\<open>rows.Close\<close>; with a failing \<^verbatim>\<open>rows.Scan\<close> between the rows; over
  the undecodable row alone; and over a database that refuses the query.
\<close>

definition example_auditor :: contactAuditor where
  "example_auditor =
     \<lparr>db = Inr ([Row 7 ''{'' ''2024-01-01T00:00:00Z'',
                 Row 8 example_payload ''2024-01-02T00:00:00Z''], None),
      resultsFile = True, writeToStdout = True\<rparr>"

definition closing_error_auditor :: contactAuditor where
  "closing_error_auditor =
     \<lparr>db = Inr ([Row 7 ''{'' ''2024-01-01T00:00:00Z'',
                 Row 8 example_payload ''2024-01-02T00:00:00Z''],
                Some ''sql: connection is already closed''),
      resultsFile = True, writeToStdout = True\<rparr>"

definition scan_error_auditor :: contactAuditor where
  "scan_error_auditor =
     \<lparr>db = Inr ([Row 7 ''{'' ''2024-01-01T00:00:00Z'',
                 ScanErr ''sql: Scan error on column index 0'',
                 Row 8 example_payload ''2024-01-02T00:00:00Z''], None),
      resultsFile = True, writeToStdout = True\<rparr>"

definition undecodable_auditor :: contactAuditor where
  "undecodable_auditor =
     \<lparr>db = Inr ([Row 7 ''{'' ''2024-01-01T00:00:00Z''], None),
      resultsFile = True, writeToStdout = True\<rparr>"

definition no_db_auditor :: contactAuditor where
  "no_db_auditor =
     \<lparr>db = Inl ''dial tcp 127.0.0.1:3306: connect: connection refused'',
      resultsFile = True, writeToStdout = True\<rparr>"

section \<open>Lemmas\<close>

subsection \<open>Lemmas about validateContacts\<close>

text \<open>The loop computes the report of the failing contacts and calls the checker on the stripped contacts that have the prefix.\<close>

lemma length_mailto: "length ''mailto:'' = 7"
  by simp

lemma TrimPrefix_mailto: "HasPrefix c ''mailto:'' \<Longrightarrow> TrimPrefix c ''mailto:'' = drop 7 c"
  by (simp only: TrimPrefix_def length_mailto if_True)

lemma HasPrefix_split: "HasPrefix s p \<Longrightarrow> s = p @ TrimPrefix s p"
proof -
  assume h: "HasPrefix s p"
  then have "take (length p) s = p" by (simp add: HasPrefix_def)
  moreover have "take (length p) s @ drop (length p) s = s" by (rule append_take_drop_id)
  ultimately show ?thesis using h by (simp add: TrimPrefix_def)
qed

lemma failures_Nil: "spec_failures L [] = []"
  by (simp add: spec_failures_def List.map_filter_simps)

lemma failures_Cons:
  "spec_failures L (c # cs) =
     (case spec_failure_reason L c of None \<Rightarrow> spec_failures L cs | Some r \<Rightarrow> (c, r) # spec_failures L cs)"
  by (simp add: spec_failures_def List.map_filter_simps split: option.splits)

lemma failures_append: "spec_failures L (xs @ ys) = spec_failures L xs @ spec_failures L ys"
  by (simp add: spec_failures_def List.map_filter_def)

lemma problem_line_report: "problem_line L i ca c r = spec_report_line L i ca (c, r)"
  by (simp add: problem_line_def spec_report_line_def TAB_def NL_def)

lemma validate_range_eq:
  "validate_range L i ca cs (buf, calls) =
     (buf @ concat (map (spec_report_line L i ca) (spec_failures L cs)),
      calls @ map (drop 7) (filter (\<lambda>c. HasPrefix c ''mailto:'') cs))"
proof (induction cs arbitrary: buf calls)
  case Nil
  show ?case by (simp add: failures_Nil)
next
  case (Cons c cs)
  show ?case
  proof (cases "HasPrefix c ''mailto:''")
    case True
    then show ?thesis
      by (cases "ValidEmail L (drop 7 c)")
         (simp_all add: Cons.IH failures_Cons spec_failure_reason_def TrimPrefix_mailto
            writeProb_def problem_line_report)
  next
    case False
    then show ?thesis
      by (simp add: Cons.IH failures_Cons spec_failure_reason_def writeProb_def problem_line_report)
  qed
qed

lemma report_line_nonempty: "spec_report_line L i ca f \<noteq> []"
  by (simp add: spec_report_line_def)

lemma concat_report_empty:
  "concat (map (spec_report_line L i ca) fs) = [] \<longleftrightarrow> fs = []"
  by (cases fs) (simp_all add: report_line_nonempty)

lemma validateContacts_eq:
  "validateContacts L i ca cs =
     (if spec_failures L cs = [] then None
      else Some (concat (map (spec_report_line L i ca) (spec_failures L cs))))"
  by (simp add: validateContacts_def validate_range_eq Let_def concat_report_empty
        del: concat_eq_Nil_conv)

lemma validateContacts_Nil: "validateContacts L i ca [] = None"
  by (simp add: validateContacts_def)

lemma problems_eq:
  "problems L i ca cs = concat (map (spec_report_line L i ca) (spec_failures L cs))"
  by (simp add: problems_def validateContacts_eq)

lemma ValidEmail_calls_eq:
  "ValidEmail_calls L i ca cs = map (drop 7) (filter (\<lambda>c. HasPrefix c ''mailto:'') cs)"
  by (simp add: ValidEmail_calls_def validate_range_eq)

lemma length_failures:
  "length (spec_failures L cs) = length (filter (\<lambda>c. spec_failure_reason L c \<noteq> None) cs)"
  by (simp add: spec_failures_def List.map_filter_def)

lemma failures_missing_prefix:
  "\<not> HasPrefix contact ''mailto:'' \<Longrightarrow>
     spec_failures L (pre @ contact # post) =
       spec_failures L pre @ (contact, ''missing 'mailto:' prefix'') # spec_failures L post"
  by (simp add: failures_append failures_Cons spec_failure_reason_def)

lemma failures_mailto:
  "HasPrefix contact ''mailto:'' \<Longrightarrow>
     spec_failures L (pre @ contact # post) =
       spec_failures L pre
       @ (case ValidEmail L (TrimPrefix contact ''mailto:'') of
            None \<Rightarrow> [] | Some err \<Rightarrow> [(contact, err)])
       @ spec_failures L post"
  by (simp add: failures_append failures_Cons spec_failure_reason_def TrimPrefix_mailto
           split: option.splits)

lemma failures_empty_iff:
  "spec_failures L cs = [] \<longleftrightarrow>
     (\<forall>c\<in>set cs. HasPrefix c ''mailto:'' \<and> ValidEmail L (TrimPrefix c ''mailto:'') = None)"
proof (induction cs)
  case Nil
  show ?case by (simp add: failures_Nil)
next
  case (Cons c cs)
  show ?case
  proof (cases "HasPrefix c ''mailto:''")
    case True
    then show ?thesis
      using Cons
      by (simp add: failures_Cons spec_failure_reason_def TrimPrefix_mailto split: option.splits)
  next
    case False
    then show ?thesis
      by (simp add: failures_Cons spec_failure_reason_def)
  qed
qed

subsection \<open>Lemmas about newlines\<close>

text \<open>A report line holds one newline when createdAt and the quoted strings hold none.\<close>

lemma count_list_concat_lines:
  "(\<And>xs. xs \<in> set xss \<Longrightarrow> count_list xs x = 1) \<Longrightarrow> count_list (concat xss) x = length xss"
  by (induction xss) simp_all

lemma digits_set: "set (digits n) \<subseteq> set ''0123456789''"
proof (induction n rule: digits.induct)
  case (1 n)
  show ?case
  proof (cases "n < 10")
    case True
    then have "''0123456789'' ! n \<in> set ''0123456789''"
      by (intro nth_mem) simp
    with True show ?thesis
      by (subst digits.simps) simp
  next
    case False
    have "n mod 10 < 10" by simp
    then have "''0123456789'' ! (n mod 10) \<in> set ''0123456789''"
      by (intro nth_mem) simp
    with False 1 show ?thesis
      by (subst digits.simps) simp
  qed
qed

lemma fmt_d_no_newline: "count_list (fmt_d i) (CHR 0x0A) = 0"
proof -
  have "CHR 0x0A \<notin> set ''0123456789''" by simp
  then have "CHR 0x0A \<notin> set (digits n)" for n
    using digits_set [of n] by blast
  then show ?thesis
    by (simp add: fmt_d_def)
qed

lemma report_line_newlines:
  assumes "CHR 0x0A \<notin> set ca" "CHR 0x0A \<notin> set (fmt_q L (fst f))"
    "CHR 0x0A \<notin> set (fmt_q L (snd f))"
  shows "count_list (spec_report_line L i ca f) (CHR 0x0A) = 1"
  using assms by (simp add: spec_report_line_def fmt_d_no_newline)

subsection \<open>Lemmas about writeResults\<close>

text \<open>What one call adds to the trace.\<close>

lemma printed_append: "printed (t @ u) = printed t @ printed u"
  by (induction t rule: printed.induct) simp_all

lemma filed_append: "filed (t @ u) = filed t @ filed u"
  by (induction t rule: filed.induct) simp_all

lemma sends_append: "sends (t @ u) = sends t @ sends u"
  by (induction t rule: sends.induct) simp_all

lemma stdout_text_append: "stdout_text (t @ u) = stdout_text t @ stdout_text u"
  by (induction t rule: stdout_text.induct) simp_all

lemma file_text_append: "file_text (t @ u) = file_text t @ file_text u"
  by (induction t rule: file_text.induct) simp_all

lemma filter_Print_write_stdout:
  "filter is_WriteString (write_stdout W c res t) = filter is_WriteString t"
  by (simp add: write_stdout_def split: option.splits)

lemma writeResults_events:
  "writeResults W c res t =
     t @ (if writeToStdout c
          then Print res (Print_err W (length (filter is_Print t)))
               # (case Print_err W (length (filter is_Print t)) of
                    Some err \<Rightarrow> [LogErr (''Error while writing result to stdout: '' @ err)]
                  | None \<Rightarrow> [])
          else [])
       @ (if resultsFile c
          then WriteString res (WriteString_err W (length (filter is_WriteString t)))
               # (case WriteString_err W (length (filter is_WriteString t)) of
                    Some err \<Rightarrow> [LogErr (''Error while writing result to file: '' @ err)]
                  | None \<Rightarrow> [])
          else [])"
  by (simp add: writeResults_def write_file_def filter_Print_write_stdout)
     (simp add: write_stdout_def split: option.splits)

lemma printed_writeResults:
  "printed (writeResults W c res t) = printed t @ (if writeToStdout c then [res] else [])"
  by (simp add: writeResults_def write_file_def write_stdout_def printed_append
           split: option.splits)

lemma filed_writeResults:
  "filed (writeResults W c res t) = filed t @ (if resultsFile c then [res] else [])"
  by (simp add: writeResults_def write_file_def write_stdout_def filed_append
           split: option.splits)

lemma sends_writeResults: "sends (writeResults W c res t) = sends t"
  by (simp add: writeResults_def write_file_def write_stdout_def sends_append
           split: option.splits)

lemma stdout_text_writeResults:
  "Print_err W (length (filter is_Print t)) = None \<Longrightarrow>
     stdout_text (writeResults W c res t) = stdout_text t @ (if writeToStdout c then res else [])"
  by (simp add: writeResults_events stdout_text_append split: option.splits)

lemma file_text_writeResults:
  "WriteString_err W (length (filter is_WriteString t)) = None \<Longrightarrow>
     file_text (writeResults W c res t) = file_text t @ (if resultsFile c then res else [])"
  by (simp add: writeResults_events file_text_append split: option.splits)

lemma closes_writeResults:
  "count_list (writeResults W c res t) ChanClose = count_list t ChanClose"
  by (simp add: writeResults_events split: option.splits)

lemma writeResults_db: "writeResults W (c\<lparr>db := d\<rparr>) res t = writeResults W c res t"
  by (simp add: writeResults_def write_file_def write_stdout_def)

subsection \<open>Lemmas about the loop body\<close>

text \<open>What one row adds to the trace.\<close>

lemma printed_audit_row:
  "printed (audit_row L W c ch i contact ca t) =
     printed t @ (if writeToStdout c then row_results L (i, contact, ca) else [])"
  by (simp add: audit_row_def row_results_def printed_append printed_writeResults
           split: prod.splits option.splits)

lemma filed_audit_row:
  "filed (audit_row L W c ch i contact ca t) =
     filed t @ (if resultsFile c then row_results L (i, contact, ca) else [])"
  by (simp add: audit_row_def row_results_def filed_append filed_writeResults
           split: prod.splits option.splits)

lemma sends_audit_row:
  "sends (audit_row L W c ch i contact ca t) =
     sends t @ (if ch then [row_result L (i, contact, ca)] else [])"
  by (simp add: audit_row_def row_result_def sends_append sends_writeResults
           split: prod.splits option.splits)

lemma stdout_text_audit_row:
  "\<forall>n. Print_err W n = None \<Longrightarrow>
     stdout_text (audit_row L W c ch i contact ca t) =
       stdout_text t @ (if writeToStdout c then concat (row_results L (i, contact, ca)) else [])"
  by (simp add: audit_row_def row_results_def stdout_text_append stdout_text_writeResults
           split: prod.splits option.splits)

lemma file_text_audit_row:
  "\<forall>n. WriteString_err W n = None \<Longrightarrow>
     file_text (audit_row L W c ch i contact ca t) =
       file_text t @ (if resultsFile c then concat (row_results L (i, contact, ca)) else [])"
  by (simp add: audit_row_def row_results_def file_text_append file_text_writeResults
           split: prod.splits option.splits)

lemma closes_audit_row:
  "count_list (audit_row L W c ch i contact ca t) ChanClose = count_list t ChanClose"
  by (simp add: audit_row_def closes_writeResults split: prod.splits option.splits)

lemma audit_row_db:
  "audit_row L W (c\<lparr>db := d\<rparr>) ch i contact ca t = audit_row L W c ch i contact ca t"
  by (simp add: audit_row_def writeResults_db Let_def split: prod.splits option.splits)

subsection \<open>Lemmas about the loop\<close>

text \<open>The loop returns the first Scan error and handles the rows read before it.\<close>

lemma fst_run_loop: "fst (run_loop L W c ch rows t) = scan_error rows"
  by (induction L W c ch rows t rule: run_loop.induct) simp_all

lemma printed_run_loop:
  "printed (snd (run_loop L W c ch rows t)) =
     printed t @ (if writeToStdout c then concat (map (row_results L) (scanned rows)) else [])"
  by (induction L W c ch rows t rule: run_loop.induct) (simp_all add: printed_audit_row)

lemma filed_run_loop:
  "filed (snd (run_loop L W c ch rows t)) =
     filed t @ (if resultsFile c then concat (map (row_results L) (scanned rows)) else [])"
  by (induction L W c ch rows t rule: run_loop.induct) (simp_all add: filed_audit_row)

lemma sends_run_loop:
  "sends (snd (run_loop L W c ch rows t)) =
     sends t @ (if ch then map (row_result L) (scanned rows) else [])"
  by (induction L W c ch rows t rule: run_loop.induct) (simp_all add: sends_audit_row)

lemma stdout_text_run_loop:
  "\<forall>n. Print_err W n = None \<Longrightarrow>
     stdout_text (snd (run_loop L W c ch rows t)) =
       stdout_text t
       @ (if writeToStdout c then concat (concat (map (row_results L) (scanned rows))) else [])"
  by (induction L W c ch rows t rule: run_loop.induct) (simp_all add: stdout_text_audit_row)

lemma file_text_run_loop:
  "\<forall>n. WriteString_err W n = None \<Longrightarrow>
     file_text (snd (run_loop L W c ch rows t)) =
       file_text t
       @ (if resultsFile c then concat (concat (map (row_results L) (scanned rows))) else [])"
  by (induction L W c ch rows t rule: run_loop.induct) (simp_all add: file_text_audit_row)

lemma closes_run_loop:
  "count_list (snd (run_loop L W c ch rows t)) ChanClose = count_list t ChanClose"
  by (induction L W c ch rows t rule: run_loop.induct) (simp_all add: closes_audit_row)

lemma scan_error_iff: "scan_error rows \<noteq> None \<longleftrightarrow> (\<exists>e. ScanErr e \<in> set rows)"
  by (induction rows rule: scan_error.induct) auto

lemma run_loop_stop:
  "run_loop L W c ch (pre @ ScanErr e # post) t = run_loop L W c ch (pre @ [ScanErr e]) t"
proof (induction pre arbitrary: t)
  case Nil
  show ?case by simp
next
  case (Cons r pre)
  show ?case by (cases r) (simp_all add: Cons.IH)
qed

lemma run_loop_db: "run_loop L W (c\<lparr>db := d\<rparr>) ch rows t = run_loop L W c ch rows t"
proof (induction rows arbitrary: t)
  case Nil
  show ?case by simp
next
  case (Cons r rows)
  show ?case by (cases r) (simp_all add: Cons.IH audit_row_db)
qed

lemma scan_error_stop: "scan_error (pre @ ScanErr e # post) = scan_error (pre @ [ScanErr e])"
  by (induction pre rule: scan_error.induct) simp_all

lemma scan_error_stop_Some: "scan_error (pre @ [ScanErr e]) \<noteq> None"
  by (induction pre rule: scan_error.induct) simp_all

subsection \<open>Lemmas about run\<close>

text \<open>The cases of run, and what a run adds to the trace.\<close>

lemma run_cases:
  "run L W c ch t =
     (case db c of
        Inl err \<Rightarrow> (Some err, t @ [LogInfo ''Beginning database query''])
      | Inr (rows, close_err) \<Rightarrow>
          (let r = run_loop L W c ch rows (t @ [LogInfo ''Beginning database query''])
           in case scan_error rows of
                Some err \<Rightarrow> (Some err, snd r)
              | None \<Rightarrow>
                  (case close_err of
                     Some err \<Rightarrow> (Some err, snd r)
                   | None \<Rightarrow>
                       (None, snd r @ [LogInfo ''Query completed successfully'']
                                @ (if ch then [ChanClose] else [])))))"
proof (cases "db c")
  case (Inl err)
  then show ?thesis by (simp add: run_def beginAuditQuery_def)
next
  case (Inr cur)
  obtain rows close_err where cur: "cur = (rows, close_err)" by (cases cur)
  obtain e t2 where r: "run_loop L W c ch rows (t @ [LogInfo ''Beginning database query'']) = (e, t2)"
    by (cases "run_loop L W c ch rows (t @ [LogInfo ''Beginning database query''])")
  have e: "e = scan_error rows" using fst_run_loop [of L W c ch rows "t @ [LogInfo ''Beginning database query'']"] r by simp
  show ?thesis
    using Inr cur r e by (simp add: run_def beginAuditQuery_def split: option.splits)
qed

lemma fst_run:
  "fst (run L W c ch t) =
     (case db c of
        Inl err \<Rightarrow> Some err
      | Inr (rows, close_err) \<Rightarrow>
          (case scan_error rows of Some err \<Rightarrow> Some err | None \<Rightarrow> close_err))"
  by (simp add: run_cases Let_def split: sum.splits prod.splits option.splits)

lemma printed_run:
  "printed (snd (run L W c ch t)) =
     printed t @ (if writeToStdout c then concat (map (row_results L) (scanned (cursor_rows (db c)))) else [])"
  by (simp add: run_cases cursor_rows_def printed_append printed_run_loop Let_def
           split: sum.splits prod.splits option.splits)

lemma filed_run:
  "filed (snd (run L W c ch t)) =
     filed t @ (if resultsFile c then concat (map (row_results L) (scanned (cursor_rows (db c)))) else [])"
  by (simp add: run_cases cursor_rows_def filed_append filed_run_loop Let_def
           split: sum.splits prod.splits option.splits)

lemma sends_run:
  "sends (snd (run L W c ch t)) =
     sends t @ (if ch then map (row_result L) (scanned (cursor_rows (db c))) else [])"
  by (simp add: run_cases cursor_rows_def sends_append sends_run_loop Let_def
           split: sum.splits prod.splits option.splits)

lemma stdout_text_run:
  "\<forall>n. Print_err W n = None \<Longrightarrow>
     stdout_text (snd (run L W c ch t)) =
       stdout_text t
       @ (if writeToStdout c
          then concat (concat (map (row_results L) (scanned (cursor_rows (db c))))) else [])"
  by (simp add: run_cases cursor_rows_def stdout_text_append stdout_text_run_loop Let_def
           split: sum.splits prod.splits option.splits)

lemma file_text_run:
  "\<forall>n. WriteString_err W n = None \<Longrightarrow>
     file_text (snd (run L W c ch t)) =
       file_text t
       @ (if resultsFile c
          then concat (concat (map (row_results L) (scanned (cursor_rows (db c))))) else [])"
  by (simp add: run_cases cursor_rows_def file_text_append file_text_run_loop Let_def
           split: sum.splits prod.splits option.splits)

lemma closes_run:
  "count_list (snd (run L W c ch t)) ChanClose =
     count_list t ChanClose + (if ch \<and> fst (run L W c ch t) = None then 1 else 0)"
  by (simp add: run_cases closes_run_loop Let_def
           split: sum.splits prod.splits option.splits)

lemma last_run:
  "fst (run L W c True t) = None \<Longrightarrow> last (snd (run L W c True t)) = ChanClose"
  by (simp add: run_cases Let_def split: sum.splits prod.splits option.splits)

lemma run_stop:
  assumes "db c = Inr (pre @ ScanErr err # post, close_err)"
  shows "run L W c ch t = run L W (c\<lparr>db := Inr (pre @ [ScanErr err], None)\<rparr>) ch t"
proof -
  obtain e where e: "scan_error (pre @ [ScanErr err]) = Some e"
    using scan_error_stop_Some [of pre err] by auto
  have e': "scan_error (pre @ ScanErr err # post) = Some e"
    using scan_error_stop [of pre err post] e by simp
  have l: "run_loop L W c ch (pre @ ScanErr err # post) u = run_loop L W c ch (pre @ [ScanErr err]) u"
    for u by (rule run_loop_stop)
  show ?thesis
    by (simp add: run_cases assms e e' l run_loop_db Let_def)
qed

subsection \<open>Lemmas about the examples\<close>

text \<open>The example libraries on the example inputs.\<close>

lemma example_libs_sel:
  "json_Unmarshal example_libs = example_Unmarshal"
  "ValidEmail example_libs = example_ValidEmail"
  "fmt_q example_libs = example_Quote"
  by (simp_all add: example_libs_def)

lemma example_failures:
  "spec_failures example_libs example_contacts =
     [(''tel:+123'', ''missing 'mailto:' prefix''),
      (''mailto:not-an-email'', DQ @ ''not-an-email'' @ DQ @ '' is not a valid e-mail address'')]"
  by (simp add: failures_Cons failures_Nil spec_failure_reason_def example_contacts_def HasPrefix_def
        example_libs_def example_ValidEmail_def example_Quote_def DQ_def)

lemma example_Unmarshal_bad:
  "json_Unmarshal example_libs ''{'' [] = ([], Some ''unexpected end of JSON input'')"
  by (simp add: example_libs_sel example_Unmarshal_def example_payload_def example_valid_payload_def DQ_def)

lemma example_Unmarshal_payload:
  "json_Unmarshal example_libs example_payload [] = (example_contacts, None)"
  by (simp add: example_libs_sel example_Unmarshal_def example_payload_def example_valid_payload_def DQ_def)

lemma example_Unmarshal_null:
  "json_Unmarshal example_libs ''null'' [] = ([], None)"
  by (simp add: example_libs_sel example_Unmarshal_def)

lemma example_Unmarshal_valid:
  "json_Unmarshal example_libs example_valid_payload [] = (example_valid_contacts, None)"
  by (simp add: example_libs_sel example_Unmarshal_def example_payload_def
        example_valid_payload_def DQ_def)

lemma example_unmarshalContact:
  "unmarshalContact example_libs ''{'' = ([], Some ''unexpected end of JSON input'')"
  "unmarshalContact example_libs example_payload = (example_contacts, None)"
  by (simp_all add: unmarshalContact_def example_Unmarshal_bad example_Unmarshal_payload)

lemma example_auditor_sel:
  "db example_auditor =
     Inr ([Row 7 ''{'' ''2024-01-01T00:00:00Z'',
           Row 8 example_payload ''2024-01-02T00:00:00Z''], None)"
  "writeToStdout example_auditor" "resultsFile example_auditor"
  by (simp_all add: example_auditor_def)

lemma closing_error_auditor_sel:
  "db closing_error_auditor =
     Inr ([Row 7 ''{'' ''2024-01-01T00:00:00Z'',
           Row 8 example_payload ''2024-01-02T00:00:00Z''],
          Some ''sql: connection is already closed'')"
  "writeToStdout closing_error_auditor" "resultsFile closing_error_auditor"
  by (simp_all add: closing_error_auditor_def)

lemma example_io_sel:
  "Print_err example_io n = None" "WriteString_err example_io n = None"
  "WriteString_err failing_io n = None"
  "Print_err failing_io 0 = Some ''write /dev/stdout: broken pipe''"
  by (simp_all add: example_io_def failing_io_def)

lemma scanned_append:
  "scan_error pre = None \<Longrightarrow> scanned (pre @ rows) = scanned pre @ scanned rows"
  by (induction pre rule: scan_error.induct) simp_all

lemma scan_error_append:
  "scan_error pre = None \<Longrightarrow> scan_error (pre @ rows) = scan_error rows"
  by (induction pre rule: scan_error.induct) simp_all

lemma row_results_decode_error:
  "unmarshalContact L contact = ([], Some err) \<Longrightarrow>
     row_results L (i, contact, createdAt) = [unmarshal_line L i createdAt contact err]"
  by (simp add: row_results_def validateContacts_Nil)

lemma example_unmarshal_line_7:
  "unmarshal_line example_libs 7 ''2024-01-01T00:00:00Z'' ''{'' ''unexpected end of JSON input'' =
     ''7'' @ TAB @ ''2024-01-01T00:00:00Z'' @ TAB @ ''unmarshal'' @ TAB @ DQ @ ''{'' @ DQ
       @ TAB @ DQ @ ''unexpected end of JSON input'' @ DQ @ NL"
  by (simp add: unmarshal_line_def fmt_d_def digits.simps example_libs_sel example_Quote_def)

lemma example_validation_8:
  "validateContacts example_libs 8 ''2024-01-02T00:00:00Z'' example_contacts =
     Some (''8'' @ TAB @ ''2024-01-02T00:00:00Z'' @ TAB @ ''validation'' @ TAB
             @ DQ @ ''tel:+123'' @ DQ @ TAB @ DQ @ ''missing 'mailto:' prefix'' @ DQ @ NL
           @ ''8'' @ TAB @ ''2024-01-02T00:00:00Z'' @ TAB @ ''validation'' @ TAB
             @ DQ @ ''mailto:not-an-email'' @ DQ @ TAB
             @ DQ @ [CHR 0x5C] @ DQ @ ''not-an-email'' @ [CHR 0x5C] @ DQ
             @ '' is not a valid e-mail address'' @ DQ @ NL)"
  by (simp add: validateContacts_eq example_failures spec_report_line_def fmt_d_def digits.simps
        TAB_def NL_def DQ_def example_libs_sel example_Quote_def)

section \<open>The claims\<close>

text \<open>
  C1. The error of \<^verbatim>\<open>validateContacts\<close> is nil when no contact fails; otherwise its text is
  the concatenation, in the order of the contacts, of one report line per failing contact:
  the record id, a tab, createdAt, a tab, \<^verbatim>\<open>validation\<close>, a tab, the unstripped contact
  quoted, a tab, the reason quoted, a newline. There are as many lines as failing
  contacts; and the text holds that many newlines when createdAt and the quoted strings
  hold none.
\<close>

theorem validateContacts_report:
  "validateContacts L i createdAt contacts =
     (if spec_failures L contacts = [] then None
      else Some (concat (map (spec_report_line L i createdAt) (spec_failures L contacts))))
   \<and> length (spec_failures L contacts)
       = length (filter (\<lambda>c. spec_failure_reason L c \<noteq> None) contacts)
   \<and> (CHR 0x0A \<notin> set createdAt \<longrightarrow>
        (\<forall>f \<in> set (spec_failures L contacts).
           CHR 0x0A \<notin> set (fmt_q L (fst f)) \<and> CHR 0x0A \<notin> set (fmt_q L (snd f))) \<longrightarrow>
        count_list (concat (map (spec_report_line L i createdAt) (spec_failures L contacts))) (CHR 0x0A)
          = length (spec_failures L contacts))"
proof (intro conjI impI)
  show "validateContacts L i createdAt contacts =
     (if spec_failures L contacts = [] then None
      else Some (concat (map (spec_report_line L i createdAt) (spec_failures L contacts))))"
    by (rule validateContacts_eq)
  show "length (spec_failures L contacts)
       = length (filter (\<lambda>c. spec_failure_reason L c \<noteq> None) contacts)"
    by (rule length_failures)
next
  assume ca: "CHR 0x0A \<notin> set createdAt"
    and q: "\<forall>f \<in> set (spec_failures L contacts).
           CHR 0x0A \<notin> set (fmt_q L (fst f)) \<and> CHR 0x0A \<notin> set (fmt_q L (snd f))"
  have "count_list (concat (map (spec_report_line L i createdAt) (spec_failures L contacts))) (CHR 0x0A)
      = length (map (spec_report_line L i createdAt) (spec_failures L contacts))"
    by (rule count_list_concat_lines) (use ca q in \<open>auto simp: report_line_newlines\<close>)
  then show "count_list (concat (map (spec_report_line L i createdAt) (spec_failures L contacts))) (CHR 0x0A)
          = length (spec_failures L contacts)"
    by simp
qed

theorem validateContacts_report_witness:
  "validateContacts example_libs 7 ''2024-01-01T00:00:00Z'' example_contacts =
     Some (''7'' @ TAB @ ''2024-01-01T00:00:00Z'' @ TAB @ ''validation'' @ TAB
             @ DQ @ ''tel:+123'' @ DQ @ TAB @ DQ @ ''missing 'mailto:' prefix'' @ DQ @ NL
           @ ''7'' @ TAB @ ''2024-01-01T00:00:00Z'' @ TAB @ ''validation'' @ TAB
             @ DQ @ ''mailto:not-an-email'' @ DQ @ TAB
             @ DQ @ [CHR 0x5C] @ DQ @ ''not-an-email'' @ [CHR 0x5C] @ DQ
             @ '' is not a valid e-mail address'' @ DQ @ NL)
   \<and> length (spec_failures example_libs example_contacts) = 2
   \<and> count_list
        (concat (map (spec_report_line example_libs 7 ''2024-01-01T00:00:00Z'')
           (spec_failures example_libs example_contacts))) (CHR 0x0A) = 2"
  using validateContacts_report [of example_libs 7 "''2024-01-01T00:00:00Z''" example_contacts]
  by (simp add: example_failures spec_report_line_def fmt_d_def digits.simps TAB_def NL_def DQ_def
        example_libs_sel example_Quote_def)

text \<open>
  C2. When \<^verbatim>\<open>json.Unmarshal\<close> fails on the payload of a row that \<^verbatim>\<open>run\<close> reads,
  \<^verbatim>\<open>unmarshalContact\<close> returns no contacts with the error and \<^verbatim>\<open>validateContacts\<close> on them
  returns nil. What \<^verbatim>\<open>run\<close> hands to each configured destination is what the run over the
  rows before hands to it, then the one \<^verbatim>\<open>unmarshal\<close> line of that row and no
  \<^verbatim>\<open>validation\<close> line, then what the run over the rows after hands to it; and \<^verbatim>\<open>run\<close>
  returns what the run over the rows after returns: the row does not end the run. In the
  loop, the body hands \<^verbatim>\<open>writeResults\<close> that one line and the loop goes on with the next row.
\<close>

theorem decode_failure_one_unmarshal_problem:
  assumes "snd (json_Unmarshal L contact []) = Some err"
    and "db c = Inr (pre @ Row i contact createdAt # post, close_err)"
    and "scan_error pre = None"
  shows "unmarshalContact L contact = ([], Some err)
     \<and> validateContacts L i createdAt (fst (unmarshalContact L contact)) = None
     \<and> printed (snd (run L W c resChan [])) =
         printed (snd (run L W (c\<lparr>db := Inr (pre, None)\<rparr>) resChan []))
         @ (if writeToStdout c then [unmarshal_line L i createdAt contact err] else [])
         @ printed (snd (run L W (c\<lparr>db := Inr (post, close_err)\<rparr>) resChan []))
     \<and> filed (snd (run L W c resChan [])) =
         filed (snd (run L W (c\<lparr>db := Inr (pre, None)\<rparr>) resChan []))
         @ (if resultsFile c then [unmarshal_line L i createdAt contact err] else [])
         @ filed (snd (run L W (c\<lparr>db := Inr (post, close_err)\<rparr>) resChan []))
     \<and> fst (run L W c resChan t) =
         fst (run L W (c\<lparr>db := Inr (post, close_err)\<rparr>) resChan t)
     \<and> audit_row L W c resChan i contact createdAt t =
         (let t' = writeResults W c (unmarshal_line L i createdAt contact err) t
          in if resChan
             then t' @ [Send \<lparr>result_id = i, result_contacts = [],
                               result_createdAt = createdAt\<rparr>]
             else t')
     \<and> printed (audit_row L W c resChan i contact createdAt t) =
         printed t @ (if writeToStdout c then [unmarshal_line L i createdAt contact err] else [])
     \<and> filed (audit_row L W c resChan i contact createdAt t) =
         filed t @ (if resultsFile c then [unmarshal_line L i createdAt contact err] else [])
     \<and> run_loop L W c resChan (Row i contact createdAt # rows) t =
         run_loop L W c resChan rows (audit_row L W c resChan i contact createdAt t)"
proof -
  have u: "unmarshalContact L contact = ([], Some err)"
    using assms(1) by (cases "json_Unmarshal L contact []") (simp add: unmarshalContact_def)
  have v: "validateContacts L i createdAt (fst (unmarshalContact L contact)) = None"
    by (simp add: u validateContacts_Nil)
  have s: "scanned (pre @ Row i contact createdAt # post) =
      scanned pre @ (i, contact, createdAt) # scanned post"
    using assms(3) by (simp add: scanned_append)
  have rp: "printed (snd (run L W c resChan [])) =
         printed (snd (run L W (c\<lparr>db := Inr (pre, None)\<rparr>) resChan []))
         @ (if writeToStdout c then [unmarshal_line L i createdAt contact err] else [])
         @ printed (snd (run L W (c\<lparr>db := Inr (post, close_err)\<rparr>) resChan []))"
    by (simp add: printed_run cursor_rows_def assms(2) s row_results_decode_error [OF u])
  have rf: "filed (snd (run L W c resChan [])) =
         filed (snd (run L W (c\<lparr>db := Inr (pre, None)\<rparr>) resChan []))
         @ (if resultsFile c then [unmarshal_line L i createdAt contact err] else [])
         @ filed (snd (run L W (c\<lparr>db := Inr (post, close_err)\<rparr>) resChan []))"
    by (simp add: filed_run cursor_rows_def assms(2) s row_results_decode_error [OF u])
  have e: "scan_error (pre @ Row i contact createdAt # post) = scan_error post"
    using assms(3) by (simp add: scan_error_append)
  have re: "fst (run L W c resChan t) =
         fst (run L W (c\<lparr>db := Inr (post, close_err)\<rparr>) resChan t)"
    by (simp add: fst_run assms(2) e)
  have a: "audit_row L W c resChan i contact createdAt t =
         (let t' = writeResults W c (unmarshal_line L i createdAt contact err) t
          in if resChan
             then t' @ [Send \<lparr>result_id = i, result_contacts = [],
                               result_createdAt = createdAt\<rparr>]
             else t')"
    by (simp add: audit_row_def u validateContacts_Nil)
  have p: "printed (audit_row L W c resChan i contact createdAt t) =
         printed t @ (if writeToStdout c then [unmarshal_line L i createdAt contact err] else [])"
    by (simp add: a Let_def printed_append printed_writeResults)
  have f: "filed (audit_row L W c resChan i contact createdAt t) =
         filed t @ (if resultsFile c then [unmarshal_line L i createdAt contact err] else [])"
    by (simp add: a Let_def filed_append filed_writeResults)
  have l: "run_loop L W c resChan (Row i contact createdAt # rows) t =
         run_loop L W c resChan rows (audit_row L W c resChan i contact createdAt t)"
    by simp
  show ?thesis
    using u v rp rf re a p f l by blast
qed

theorem decode_failure_one_unmarshal_problem_witness:
  "snd (json_Unmarshal example_libs ''{'' []) = Some ''unexpected end of JSON input''
   \<and> unmarshalContact example_libs ''{'' = ([], Some ''unexpected end of JSON input'')
   \<and> printed (snd (run example_libs example_io example_auditor False [])) =
       [''7'' @ TAB @ ''2024-01-01T00:00:00Z'' @ TAB @ ''unmarshal'' @ TAB @ DQ @ ''{'' @ DQ
          @ TAB @ DQ @ ''unexpected end of JSON input'' @ DQ @ NL,
        ''8'' @ TAB @ ''2024-01-02T00:00:00Z'' @ TAB @ ''validation'' @ TAB
             @ DQ @ ''tel:+123'' @ DQ @ TAB @ DQ @ ''missing 'mailto:' prefix'' @ DQ @ NL
           @ ''8'' @ TAB @ ''2024-01-02T00:00:00Z'' @ TAB @ ''validation'' @ TAB
             @ DQ @ ''mailto:not-an-email'' @ DQ @ TAB
             @ DQ @ [CHR 0x5C] @ DQ @ ''not-an-email'' @ [CHR 0x5C] @ DQ
             @ '' is not a valid e-mail address'' @ DQ @ NL]
   \<and> filed (snd (run example_libs example_io example_auditor False [])) =
       printed (snd (run example_libs example_io example_auditor False []))
   \<and> fst (run example_libs example_io example_auditor False []) = None"
proof -
  have h: "snd (json_Unmarshal example_libs ''{'' []) = Some ''unexpected end of JSON input''"
    by (simp add: example_Unmarshal_bad)
  have d: "db example_auditor =
      Inr ([] @ Row 7 ''{'' ''2024-01-01T00:00:00Z''
             # [Row 8 example_payload ''2024-01-02T00:00:00Z''], None)"
    by (simp add: example_auditor_sel)
  have n: "scan_error [] = None"
    by simp
  note th = decode_failure_one_unmarshal_problem
    [OF h d n, of example_io False "[]" "[]"]
  have u: "unmarshalContact example_libs ''{'' = ([], Some ''unexpected end of JSON input'')"
    using th by blast
  have r8: "row_results example_libs (8, example_payload, ''2024-01-02T00:00:00Z'') =
      [the (validateContacts example_libs 8 ''2024-01-02T00:00:00Z'' example_contacts)]"
    by (simp add: row_results_def example_unmarshalContact example_validation_8)
  have p0: "printed (snd (run example_libs example_io
        (example_auditor\<lparr>db := Inr ([], None)\<rparr>) False [])) = []"
    "filed (snd (run example_libs example_io
        (example_auditor\<lparr>db := Inr ([], None)\<rparr>) False [])) = []"
    by (simp_all add: printed_run filed_run cursor_rows_def)
  have p8: "printed (snd (run example_libs example_io
        (example_auditor\<lparr>db := Inr ([Row 8 example_payload ''2024-01-02T00:00:00Z''], None)\<rparr>)
        False [])) =
      [the (validateContacts example_libs 8 ''2024-01-02T00:00:00Z'' example_contacts)]"
    "filed (snd (run example_libs example_io
        (example_auditor\<lparr>db := Inr ([Row 8 example_payload ''2024-01-02T00:00:00Z''], None)\<rparr>)
        False [])) =
      [the (validateContacts example_libs 8 ''2024-01-02T00:00:00Z'' example_contacts)]"
    by (simp_all add: printed_run filed_run cursor_rows_def r8 example_auditor_sel)
  have e8: "fst (run example_libs example_io
        (example_auditor\<lparr>db := Inr ([Row 8 example_payload ''2024-01-02T00:00:00Z''], None)\<rparr>)
        False []) = None"
    by (simp add: fst_run)
  have p: "printed (snd (run example_libs example_io example_auditor False [])) =
      [unmarshal_line example_libs 7 ''2024-01-01T00:00:00Z'' ''{''
         ''unexpected end of JSON input'',
       the (validateContacts example_libs 8 ''2024-01-02T00:00:00Z'' example_contacts)]"
    using th [THEN conjunct2, THEN conjunct2, THEN conjunct1]
    by (simp add: p0 p8 example_auditor_sel)
  have f: "filed (snd (run example_libs example_io example_auditor False [])) =
      [unmarshal_line example_libs 7 ''2024-01-01T00:00:00Z'' ''{''
         ''unexpected end of JSON input'',
       the (validateContacts example_libs 8 ''2024-01-02T00:00:00Z'' example_contacts)]"
    using th [THEN conjunct2, THEN conjunct2, THEN conjunct2, THEN conjunct1]
    by (simp add: p0 p8 example_auditor_sel)
  have e: "fst (run example_libs example_io example_auditor False []) = None"
    using th [THEN conjunct2, THEN conjunct2, THEN conjunct2, THEN conjunct2, THEN conjunct1] e8
    by simp
  show ?thesis
    using h u e by (simp add: p f example_unmarshal_line_7 example_validation_8)
qed

text \<open>
  C3. A contact that does not begin with \<^verbatim>\<open>mailto:\<close> adds exactly one line to the
  error of \<^verbatim>\<open>validateContacts\<close>, between what the contacts before it and after it add,
  with the reason \<^verbatim>\<open>missing 'mailto:' prefix\<close>, whatever the checker would say; and
  \<^verbatim>\<open>policy.ValidEmail\<close> is not called for it.
\<close>

theorem missing_prefix_one_problem:
  assumes "\<not> HasPrefix contact ''mailto:''"
  shows "validateContacts L i createdAt (pre @ contact # post) =
           Some (problems L i createdAt pre
                 @ fmt_d i @ TAB @ createdAt @ TAB @ ''validation'' @ TAB @ fmt_q L contact
                 @ TAB @ fmt_q L ''missing 'mailto:' prefix'' @ NL
                 @ problems L i createdAt post)
     \<and> ValidEmail_calls L i createdAt (pre @ contact # post) =
         ValidEmail_calls L i createdAt pre @ ValidEmail_calls L i createdAt post"
  using assms
  by (simp add: validateContacts_eq problems_eq failures_missing_prefix ValidEmail_calls_eq
        spec_report_line_def TAB_def NL_def)

theorem missing_prefix_one_problem_witness:
  "\<not> HasPrefix ''a@example.com'' ''mailto:''
   \<and> validateContacts example_libs 7 ''2024-01-01T00:00:00Z''
        [''mailto:a@example.com'', ''a@example.com''] =
       Some (''7'' @ TAB @ ''2024-01-01T00:00:00Z'' @ TAB @ ''validation'' @ TAB
               @ DQ @ ''a@example.com'' @ DQ @ TAB @ DQ @ ''missing 'mailto:' prefix'' @ DQ @ NL)
   \<and> ValidEmail_calls example_libs 7 ''2024-01-01T00:00:00Z''
        [''mailto:a@example.com'', ''a@example.com''] = [''a@example.com'']"
proof -
  have h: "\<not> HasPrefix ''a@example.com'' ''mailto:''"
    by (simp add: HasPrefix_def)
  have p: "problems example_libs 7 ''2024-01-01T00:00:00Z'' [''mailto:a@example.com''] = []"
    "problems example_libs 7 ''2024-01-01T00:00:00Z'' [] = []"
    by (simp_all add: problems_eq failures_Cons failures_Nil spec_failure_reason_def HasPrefix_def
          example_libs_sel example_ValidEmail_def)
  have c: "ValidEmail_calls example_libs 7 ''2024-01-01T00:00:00Z'' [''mailto:a@example.com'']
             = [''a@example.com'']"
    "ValidEmail_calls example_libs 7 ''2024-01-01T00:00:00Z'' [] = []"
    by (simp_all add: ValidEmail_calls_eq HasPrefix_def)
  note th = missing_prefix_one_problem
    [OF h, of example_libs 7 "''2024-01-01T00:00:00Z''" "[''mailto:a@example.com'']" "[]"]
  have v: "validateContacts example_libs 7 ''2024-01-01T00:00:00Z''
        ([''mailto:a@example.com''] @ ''a@example.com'' # []) =
       Some (problems example_libs 7 ''2024-01-01T00:00:00Z'' [''mailto:a@example.com'']
             @ fmt_d 7 @ TAB @ ''2024-01-01T00:00:00Z'' @ TAB @ ''validation'' @ TAB
             @ fmt_q example_libs ''a@example.com'' @ TAB
             @ fmt_q example_libs ''missing 'mailto:' prefix''
             @ NL @ problems example_libs 7 ''2024-01-01T00:00:00Z'' [])"
    using th by blast
  have k: "ValidEmail_calls example_libs 7 ''2024-01-01T00:00:00Z''
        ([''mailto:a@example.com''] @ ''a@example.com'' # []) =
      ValidEmail_calls example_libs 7 ''2024-01-01T00:00:00Z'' [''mailto:a@example.com'']
      @ ValidEmail_calls example_libs 7 ''2024-01-01T00:00:00Z'' []"
    using th by blast
  show ?thesis
    using h v k p c
    by (simp add: fmt_d_def digits.simps example_libs_sel example_Quote_def)
qed

text \<open>
  C4. A contact that begins with \<^verbatim>\<open>mailto:\<close> is that prefix followed by the remainder
  \<^verbatim>\<open>policy.ValidEmail\<close> is called with, once; when the call returns an error, the contact
  adds exactly one line to the error of \<^verbatim>\<open>validateContacts\<close>, whose reason is the
  message of that error and whose contact is the unstripped one.
\<close>

theorem mailto_contact_checked:
  assumes "HasPrefix contact ''mailto:''"
  shows "contact = ''mailto:'' @ TrimPrefix contact ''mailto:''
     \<and> ValidEmail_calls L i createdAt (pre @ contact # post) =
         ValidEmail_calls L i createdAt pre @ [TrimPrefix contact ''mailto:'']
           @ ValidEmail_calls L i createdAt post
     \<and> (\<forall>err. ValidEmail L (TrimPrefix contact ''mailto:'') = Some err \<longrightarrow>
           validateContacts L i createdAt (pre @ contact # post) =
             Some (problems L i createdAt pre
                   @ fmt_d i @ TAB @ createdAt @ TAB @ ''validation'' @ TAB @ fmt_q L contact
                   @ TAB @ fmt_q L err @ NL
                   @ problems L i createdAt post))"
proof (intro conjI allI impI)
  show "contact = ''mailto:'' @ TrimPrefix contact ''mailto:''"
    using assms by (rule HasPrefix_split)
  show "ValidEmail_calls L i createdAt (pre @ contact # post) =
         ValidEmail_calls L i createdAt pre @ [TrimPrefix contact ''mailto:'']
           @ ValidEmail_calls L i createdAt post"
    using assms by (simp add: ValidEmail_calls_eq TrimPrefix_mailto)
next
  fix err
  assume "ValidEmail L (TrimPrefix contact ''mailto:'') = Some err"
  then show "validateContacts L i createdAt (pre @ contact # post) =
             Some (problems L i createdAt pre
                   @ fmt_d i @ TAB @ createdAt @ TAB @ ''validation'' @ TAB @ fmt_q L contact
                   @ TAB @ fmt_q L err @ NL
                   @ problems L i createdAt post)"
    using assms
    by (simp add: validateContacts_eq problems_eq failures_mailto spec_report_line_def TAB_def NL_def)
qed

theorem mailto_contact_checked_witness:
  "HasPrefix ''mailto:not-an-email'' ''mailto:''
   \<and> TrimPrefix ''mailto:not-an-email'' ''mailto:'' = ''not-an-email''
   \<and> ValidEmail_calls example_libs 7 ''2024-01-01T00:00:00Z''
        [''mailto:a@example.com'', ''mailto:not-an-email''] = [''a@example.com'', ''not-an-email'']
   \<and> validateContacts example_libs 7 ''2024-01-01T00:00:00Z''
        [''mailto:a@example.com'', ''mailto:not-an-email''] =
       Some (''7'' @ TAB @ ''2024-01-01T00:00:00Z'' @ TAB @ ''validation'' @ TAB
               @ DQ @ ''mailto:not-an-email'' @ DQ @ TAB
               @ DQ @ [CHR 0x5C] @ DQ @ ''not-an-email'' @ [CHR 0x5C] @ DQ
               @ '' is not a valid e-mail address'' @ DQ @ NL)"
proof -
  have h: "HasPrefix ''mailto:not-an-email'' ''mailto:''"
    by (simp add: HasPrefix_def)
  have s: "TrimPrefix ''mailto:not-an-email'' ''mailto:'' = ''not-an-email''"
    by (simp add: TrimPrefix_def HasPrefix_def)
  have e: "ValidEmail example_libs (TrimPrefix ''mailto:not-an-email'' ''mailto:'') =
      Some (DQ @ ''not-an-email'' @ DQ @ '' is not a valid e-mail address'')"
    by (simp add: s example_libs_sel example_ValidEmail_def example_Quote_def DQ_def)
  have p: "problems example_libs 7 ''2024-01-01T00:00:00Z'' [''mailto:a@example.com''] = []"
    "problems example_libs 7 ''2024-01-01T00:00:00Z'' [] = []"
    by (simp_all add: problems_eq failures_Cons failures_Nil spec_failure_reason_def HasPrefix_def
          example_libs_sel example_ValidEmail_def)
  have c: "ValidEmail_calls example_libs 7 ''2024-01-01T00:00:00Z'' [''mailto:a@example.com'']
             = [''a@example.com'']"
    "ValidEmail_calls example_libs 7 ''2024-01-01T00:00:00Z'' [] = []"
    by (simp_all add: ValidEmail_calls_eq HasPrefix_def)
  note th = mailto_contact_checked
    [OF h, of example_libs 7 "''2024-01-01T00:00:00Z''" "[''mailto:a@example.com'']" "[]"]
  have v: "validateContacts example_libs 7 ''2024-01-01T00:00:00Z''
        ([''mailto:a@example.com''] @ ''mailto:not-an-email'' # []) =
       Some (problems example_libs 7 ''2024-01-01T00:00:00Z'' [''mailto:a@example.com'']
             @ fmt_d 7 @ TAB @ ''2024-01-01T00:00:00Z'' @ TAB @ ''validation'' @ TAB
             @ fmt_q example_libs ''mailto:not-an-email'' @ TAB
             @ fmt_q example_libs (DQ @ ''not-an-email'' @ DQ @ '' is not a valid e-mail address'')
             @ NL @ problems example_libs 7 ''2024-01-01T00:00:00Z'' [])"
    using th [THEN conjunct2, THEN conjunct2, THEN spec, THEN mp, OF e] .
  have k: "ValidEmail_calls example_libs 7 ''2024-01-01T00:00:00Z''
        ([''mailto:a@example.com''] @ ''mailto:not-an-email'' # []) =
      ValidEmail_calls example_libs 7 ''2024-01-01T00:00:00Z'' [''mailto:a@example.com'']
      @ [TrimPrefix ''mailto:not-an-email'' ''mailto:'']
      @ ValidEmail_calls example_libs 7 ''2024-01-01T00:00:00Z'' []"
    using th by blast
  show ?thesis
    using h s k v p c
    by (simp add: fmt_d_def digits.simps example_libs_sel example_Quote_def DQ_def)
qed

text \<open>
  C5, as the code has it. \<^verbatim>\<open>run\<close> returns an error exactly when the query fails, a
  \<^verbatim>\<open>rows.Scan\<close> fails or \<^verbatim>\<open>rows.Close\<close> fails: the error of the query, else of the
  first failing \<^verbatim>\<open>rows.Scan\<close>, else of \<^verbatim>\<open>rows.Close\<close>. What the decoder, the checker
  and the writes do has no part in it. After a failing \<^verbatim>\<open>rows.Scan\<close> no later row is
  read: the run is the run over the cursor cut after that step.
\<close>

theorem run_error_cases:
  "fst (run L W c resChan t) =
     (case db c of
        Inl err \<Rightarrow> Some err
      | Inr (rows, close_err) \<Rightarrow>
          (case scan_error rows of Some err \<Rightarrow> Some err | None \<Rightarrow> close_err))
   \<and> (fst (run L W c resChan t) \<noteq> None) =
       (case db c of
          Inl err \<Rightarrow> True
        | Inr (rows, close_err) \<Rightarrow> (\<exists>e. ScanErr e \<in> set rows) \<or> close_err \<noteq> None)
   \<and> (db c = Inr (pre @ ScanErr err # post, close_err) \<longrightarrow>
        run L W c resChan t = run L W (c\<lparr>db := Inr (pre @ [ScanErr err], None)\<rparr>) resChan t)"
proof (intro conjI impI)
  show r: "fst (run L W c resChan t) =
     (case db c of
        Inl err \<Rightarrow> Some err
      | Inr (rows, close_err) \<Rightarrow>
          (case scan_error rows of Some err \<Rightarrow> Some err | None \<Rightarrow> close_err))"
    by (rule fst_run)
  show "(fst (run L W c resChan t) \<noteq> None) =
       (case db c of
          Inl err \<Rightarrow> True
        | Inr (rows, close_err) \<Rightarrow> (\<exists>e. ScanErr e \<in> set rows) \<or> close_err \<noteq> None)"
    unfolding r scan_error_iff [symmetric]
    by (simp split: sum.splits prod.splits option.splits)
next
  assume "db c = Inr (pre @ ScanErr err # post, close_err)"
  then show "run L W c resChan t = run L W (c\<lparr>db := Inr (pre @ [ScanErr err], None)\<rparr>) resChan t"
    by (rule run_stop)
qed

theorem run_error_cases_witness:
  "fst (run example_libs example_io scan_error_auditor False []) =
     Some ''sql: Scan error on column index 0''
   \<and> run example_libs example_io scan_error_auditor False [] =
       run example_libs example_io
         (scan_error_auditor\<lparr>db := Inr ([Row 7 ''{'' ''2024-01-01T00:00:00Z'',
            ScanErr ''sql: Scan error on column index 0''], None)\<rparr>) False []"
proof -
  note th = run_error_cases [of example_libs example_io scan_error_auditor False "[]"
      "[Row 7 ''{'' ''2024-01-01T00:00:00Z'']" "''sql: Scan error on column index 0''"
      "[Row 8 example_payload ''2024-01-02T00:00:00Z'']" None]
  have d: "db scan_error_auditor =
      Inr ([Row 7 ''{'' ''2024-01-01T00:00:00Z''] @ ScanErr ''sql: Scan error on column index 0''
             # [Row 8 example_payload ''2024-01-02T00:00:00Z''], None)"
    by (simp add: scan_error_auditor_def)
  have a: "fst (run example_libs example_io scan_error_auditor False []) =
      Some ''sql: Scan error on column index 0''"
    using th [THEN conjunct1] by (simp add: d)
  have b: "run example_libs example_io scan_error_auditor False [] =
       run example_libs example_io
         (scan_error_auditor\<lparr>db := Inr ([Row 7 ''{'' ''2024-01-01T00:00:00Z'',
            ScanErr ''sql: Scan error on column index 0''], None)\<rparr>) False []"
    using th [THEN conjunct2, THEN conjunct2, THEN mp, OF d] by simp
  show ?thesis using a b by simp
qed

text \<open>
  C5 as it is stated fails: when the database refuses the query, \<^verbatim>\<open>run\<close> returns an error
  although no \<^verbatim>\<open>rows.Scan\<close> and no \<^verbatim>\<open>rows.Close\<close> fails.
\<close>

theorem run_error_counterexample:
  "fst (run example_libs example_io no_db_auditor False []) =
     Some ''dial tcp 127.0.0.1:3306: connect: connection refused''
   \<and> \<not> scan_fails no_db_auditor \<and> \<not> close_fails no_db_auditor"
  by (simp add: run_def beginAuditQuery_def no_db_auditor_def scan_fails_def close_fails_def)

text \<open>
  C6. \<^verbatim>\<open>validateContacts\<close> returns nil exactly when every contact begins with
  \<^verbatim>\<open>mailto:\<close> and the checker accepts every stripped remainder. For a row whose payload
  decodes to such contacts the loop body writes nothing: it adds no event to the trace
  but the value sent on the channel, when there is one.
\<close>

theorem valid_contacts_no_problem:
  "(validateContacts L i createdAt contacts = None) =
     (\<forall>c\<in>set contacts.
        HasPrefix c ''mailto:'' \<and> ValidEmail L (TrimPrefix c ''mailto:'') = None)
   \<and> (json_Unmarshal L contact [] = (contacts, None) \<longrightarrow>
        (\<forall>c\<in>set contacts.
           HasPrefix c ''mailto:'' \<and> ValidEmail L (TrimPrefix c ''mailto:'') = None) \<longrightarrow>
        audit_row L W a resChan i contact createdAt t =
          (if resChan
           then t @ [Send \<lparr>result_id = i, result_contacts = contacts,
                           result_createdAt = createdAt\<rparr>]
           else t))"
proof (intro conjI impI)
  show iff: "(validateContacts L i createdAt contacts = None) =
     (\<forall>c\<in>set contacts.
        HasPrefix c ''mailto:'' \<and> ValidEmail L (TrimPrefix c ''mailto:'') = None)"
    by (simp add: validateContacts_eq failures_empty_iff)
  assume d: "json_Unmarshal L contact [] = (contacts, None)"
    and ok: "\<forall>c\<in>set contacts.
           HasPrefix c ''mailto:'' \<and> ValidEmail L (TrimPrefix c ''mailto:'') = None"
  have u: "unmarshalContact L contact = (contacts, None)"
    using d by (simp add: unmarshalContact_def)
  have v: "validateContacts L i createdAt contacts = None"
    using iff ok by simp
  show "audit_row L W a resChan i contact createdAt t =
          (if resChan
           then t @ [Send \<lparr>result_id = i, result_contacts = contacts,
                           result_createdAt = createdAt\<rparr>]
           else t)"
    by (simp add: audit_row_def u v)
qed

theorem valid_contacts_no_problem_witness:
  "HasPrefix ''mailto:a@example.com'' ''mailto:''
   \<and> ValidEmail example_libs (TrimPrefix ''mailto:a@example.com'' ''mailto:'') = None
   \<and> HasPrefix ''mailto:b@example.org'' ''mailto:''
   \<and> ValidEmail example_libs (TrimPrefix ''mailto:b@example.org'' ''mailto:'') = None
   \<and> json_Unmarshal example_libs example_valid_payload [] = (example_valid_contacts, None)
   \<and> validateContacts example_libs 7 ''2024-01-01T00:00:00Z'' example_valid_contacts = None
   \<and> audit_row example_libs example_io example_auditor False 7 example_valid_payload
        ''2024-01-01T00:00:00Z'' [] = []"
proof -
  have h: "HasPrefix ''mailto:a@example.com'' ''mailto:''"
    "ValidEmail example_libs (TrimPrefix ''mailto:a@example.com'' ''mailto:'') = None"
    "HasPrefix ''mailto:b@example.org'' ''mailto:''"
    "ValidEmail example_libs (TrimPrefix ''mailto:b@example.org'' ''mailto:'') = None"
    by (simp_all add: HasPrefix_def TrimPrefix_def example_libs_sel example_ValidEmail_def)
  have a: "\<forall>c\<in>set example_valid_contacts.
      HasPrefix c ''mailto:'' \<and> ValidEmail example_libs (TrimPrefix c ''mailto:'') = None"
    using h by (simp add: example_valid_contacts_def)
  note th = valid_contacts_no_problem
    [of example_libs 7 "''2024-01-01T00:00:00Z''" example_valid_contacts example_valid_payload
       example_io example_auditor False "[]"]
  have v: "validateContacts example_libs 7 ''2024-01-01T00:00:00Z'' example_valid_contacts = None"
    using th a by blast
  have r: "audit_row example_libs example_io example_auditor False 7 example_valid_payload
        ''2024-01-01T00:00:00Z'' [] = []"
    using th a example_Unmarshal_valid by simp
  show ?thesis
    using h v r example_Unmarshal_valid by simp
qed

text \<open>
  C7. \<^verbatim>\<open>writeResults\<close> only adds events to the trace: for each configured destination
  one write of the result, whatever the other write did, and a line of the logger for a
  write that failed. Which writes fail changes neither the error \<^verbatim>\<open>run\<close> returns, nor the
  results handed to each destination, nor the values sent on the channel; and when both
  destinations are configured they are handed the same results.
\<close>

theorem writeResults_tolerant:
  "writeResults W c res t =
     t @ (if writeToStdout c
          then Print res (Print_err W (length (filter is_Print t)))
               # (case Print_err W (length (filter is_Print t)) of
                    Some err \<Rightarrow> [LogErr (''Error while writing result to stdout: '' @ err)]
                  | None \<Rightarrow> [])
          else [])
       @ (if resultsFile c
          then WriteString res (WriteString_err W (length (filter is_WriteString t)))
               # (case WriteString_err W (length (filter is_WriteString t)) of
                    Some err \<Rightarrow> [LogErr (''Error while writing result to file: '' @ err)]
                  | None \<Rightarrow> [])
          else [])
   \<and> fst (run L W c resChan t) = fst (run L W' c resChan t)
   \<and> printed (snd (run L W c resChan t)) = printed (snd (run L W' c resChan t))
   \<and> filed (snd (run L W c resChan t)) = filed (snd (run L W' c resChan t))
   \<and> sends (snd (run L W c resChan t)) = sends (snd (run L W' c resChan t))
   \<and> (writeToStdout c \<and> resultsFile c \<longrightarrow>
        printed (snd (run L W c resChan [])) = filed (snd (run L W c resChan [])))"
  by (simp add: writeResults_events [symmetric] fst_run printed_run filed_run sends_run)

theorem writeResults_tolerant_witness:
  "writeToStdout example_auditor \<and> resultsFile example_auditor
   \<and> writeResults failing_io example_auditor ''7'' [] =
       [Print ''7'' (Some ''write /dev/stdout: broken pipe''),
        LogErr ''Error while writing result to stdout: write /dev/stdout: broken pipe'',
        WriteString ''7'' None]
   \<and> fst (run example_libs failing_io example_auditor False []) =
       fst (run example_libs example_io example_auditor False [])
   \<and> printed (snd (run example_libs failing_io example_auditor False [])) =
       printed (snd (run example_libs example_io example_auditor False []))
   \<and> printed (snd (run example_libs failing_io example_auditor False [])) =
       filed (snd (run example_libs failing_io example_auditor False []))"
proof -
  note th = writeResults_tolerant
    [of failing_io example_auditor "''7''" "[]" example_libs False example_io]
  have w: "writeResults failing_io example_auditor ''7'' [] =
       [Print ''7'' (Some ''write /dev/stdout: broken pipe''),
        LogErr ''Error while writing result to stdout: write /dev/stdout: broken pipe'',
        WriteString ''7'' None]"
    using th [THEN conjunct1] by (simp add: example_auditor_sel example_io_sel)
  have r: "fst (run example_libs failing_io example_auditor False []) =
       fst (run example_libs example_io example_auditor False [])"
    using th by blast
  have p: "printed (snd (run example_libs failing_io example_auditor False [])) =
       printed (snd (run example_libs example_io example_auditor False []))"
    using th by blast
  have b: "printed (snd (run example_libs failing_io example_auditor False [])) =
       filed (snd (run example_libs failing_io example_auditor False []))"
    using th example_auditor_sel(2,3) by blast
  show ?thesis
    using w r p b example_auditor_sel(2,3) by simp
qed

text \<open>
  C8. Two runs with the same libraries over cursors that yield the same rows hand the same
  results, in the same order, to stdout, and to the results file, whatever the writes do,
  whether or not there is a channel, and however the cursors close; when no write fails,
  the bytes the destination has taken are the same.
\<close>

theorem audit_output_deterministic:
  assumes "scanned (cursor_rows (db c)) = scanned (cursor_rows (db c'))"
  shows "(writeToStdout c \<and> writeToStdout c' \<longrightarrow>
            printed (snd (run L W c resChan [])) = printed (snd (run L W' c' resChan' [])))
     \<and> (resultsFile c \<and> resultsFile c' \<longrightarrow>
            filed (snd (run L W c resChan [])) = filed (snd (run L W' c' resChan' [])))
     \<and> (writeToStdout c \<and> writeToStdout c' \<and> (\<forall>n. Print_err W n = None)
          \<and> (\<forall>n. Print_err W' n = None) \<longrightarrow>
            stdout_text (snd (run L W c resChan [])) = stdout_text (snd (run L W' c' resChan' [])))
     \<and> (resultsFile c \<and> resultsFile c' \<and> (\<forall>n. WriteString_err W n = None)
          \<and> (\<forall>n. WriteString_err W' n = None) \<longrightarrow>
            file_text (snd (run L W c resChan [])) = file_text (snd (run L W' c' resChan' [])))"
  using assms by (simp add: printed_run filed_run stdout_text_run file_text_run)

theorem audit_output_deterministic_witness:
  "scanned (cursor_rows (db example_auditor)) = scanned (cursor_rows (db closing_error_auditor))
   \<and> printed (snd (run example_libs example_io example_auditor False [])) =
       printed (snd (run example_libs failing_io closing_error_auditor True []))
   \<and> filed (snd (run example_libs example_io example_auditor False [])) =
       filed (snd (run example_libs failing_io closing_error_auditor True []))
   \<and> stdout_text (snd (run example_libs example_io example_auditor False [])) =
       stdout_text (snd (run example_libs example_io closing_error_auditor True []))
   \<and> file_text (snd (run example_libs example_io example_auditor False [])) =
       file_text (snd (run example_libs failing_io closing_error_auditor True []))"
proof -
  have h: "scanned (cursor_rows (db example_auditor)) =
      scanned (cursor_rows (db closing_error_auditor))"
    by (simp add: example_auditor_sel closing_error_auditor_sel cursor_rows_def)
  note th1 = audit_output_deterministic
    [OF h, of example_libs example_io False failing_io True]
  note th2 = audit_output_deterministic
    [OF h, of example_libs example_io False example_io True]
  have p: "printed (snd (run example_libs example_io example_auditor False [])) =
       printed (snd (run example_libs failing_io closing_error_auditor True []))"
    using th1 example_auditor_sel(2) closing_error_auditor_sel(2) by blast
  have f: "filed (snd (run example_libs example_io example_auditor False [])) =
       filed (snd (run example_libs failing_io closing_error_auditor True []))"
    using th1 example_auditor_sel(3) closing_error_auditor_sel(3) by blast
  have s: "stdout_text (snd (run example_libs example_io example_auditor False [])) =
       stdout_text (snd (run example_libs example_io closing_error_auditor True []))"
    using th2 example_auditor_sel(2) closing_error_auditor_sel(2) example_io_sel(1) by blast
  have t: "file_text (snd (run example_libs example_io example_auditor False [])) =
       file_text (snd (run example_libs failing_io closing_error_auditor True []))"
    using th1 example_auditor_sel(3) closing_error_auditor_sel(3) example_io_sel(2,3) by blast
  show ?thesis
    using h p f s t by simp
qed

text \<open>
  C9, as the code has it. With a channel, \<^verbatim>\<open>run\<close> sends one value for each row read
  before the first failing \<^verbatim>\<open>rows.Scan\<close>, in order, whether or not the payload decoded:
  the id, the contacts \<^verbatim>\<open>unmarshalContact\<close> returned (none when decoding failed) and
  createdAt. It closes the channel once, as its last act, exactly when it returns nil.
  Without a channel it sends and closes nothing.
\<close>

theorem channel_receives_every_row:
  "sends (snd (run L W c True t)) =
     sends t
     @ map (\<lambda>(i, contact, createdAt).
              \<lparr>result_id = i, result_contacts = fst (unmarshalContact L contact),
               result_createdAt = createdAt\<rparr>)
         (scanned (cursor_rows (db c)))
   \<and> count_list (snd (run L W c True t)) ChanClose =
       count_list t ChanClose + (if fst (run L W c True t) = None then 1 else 0)
   \<and> (fst (run L W c True t) = None \<longrightarrow> last (snd (run L W c True t)) = ChanClose)
   \<and> sends (snd (run L W c False t)) = sends t
   \<and> count_list (snd (run L W c False t)) ChanClose = count_list t ChanClose"
proof -
  have "row_result L = (\<lambda>(i, contact, createdAt).
              \<lparr>result_id = i, result_contacts = fst (unmarshalContact L contact),
               result_createdAt = createdAt\<rparr>)"
    by (rule ext) (simp add: row_result_def split: prod.splits)
  then show ?thesis
    using sends_run [of L W c True t] sends_run [of L W c False t]
      closes_run [of L W c True t] closes_run [of L W c False t] last_run [of L W c t]
    by simp
qed

theorem channel_receives_every_row_witness:
  "sends (snd (run example_libs example_io example_auditor True [])) =
     [\<lparr>result_id = 7, result_contacts = [], result_createdAt = ''2024-01-01T00:00:00Z''\<rparr>,
      \<lparr>result_id = 8, result_contacts = example_contacts,
       result_createdAt = ''2024-01-02T00:00:00Z''\<rparr>]
   \<and> fst (run example_libs example_io example_auditor True []) = None
   \<and> count_list (snd (run example_libs example_io example_auditor True [])) ChanClose = 1
   \<and> last (snd (run example_libs example_io example_auditor True [])) = ChanClose
   \<and> sends (snd (run example_libs example_io example_auditor False [])) = []"
proof -
  note th = channel_receives_every_row [of example_libs example_io example_auditor "[]"]
  have n: "fst (run example_libs example_io example_auditor True []) = None"
    by (simp add: fst_run example_auditor_sel)
  have s: "sends (snd (run example_libs example_io example_auditor True [])) =
     [\<lparr>result_id = 7, result_contacts = [], result_createdAt = ''2024-01-01T00:00:00Z''\<rparr>,
      \<lparr>result_id = 8, result_contacts = example_contacts,
       result_createdAt = ''2024-01-02T00:00:00Z''\<rparr>]"
    using th [THEN conjunct1]
    by (simp add: example_auditor_sel cursor_rows_def example_unmarshalContact)
  have k: "count_list (snd (run example_libs example_io example_auditor True [])) ChanClose = 1"
    using th [THEN conjunct2, THEN conjunct1] n by simp
  have l: "last (snd (run example_libs example_io example_auditor True [])) = ChanClose"
    using th n by blast
  have e: "sends (snd (run example_libs example_io example_auditor False [])) = []"
    using th [THEN conjunct2, THEN conjunct2, THEN conjunct2, THEN conjunct1] by simp
  show ?thesis
    using n s k l e by simp
qed

text \<open>
  C9 as it is stated fails: a row whose payload does not decode is sent on the channel
  too, with no contacts.
\<close>

theorem channel_counterexample:
  "snd (json_Unmarshal example_libs ''{'' []) = Some ''unexpected end of JSON input''
   \<and> sends (snd (run example_libs example_io undecodable_auditor True [])) =
       [\<lparr>result_id = 7, result_contacts = [], result_createdAt = ''2024-01-01T00:00:00Z''\<rparr>]"
  by (simp add: sends_run row_result_def cursor_rows_def undecodable_auditor_def
        unmarshalContact_def example_libs_sel example_Unmarshal_def example_payload_def example_valid_payload_def DQ_def)

text \<open>
  C10. When the decoder turns the payload \<^verbatim>\<open>null\<close> into no contacts and no error,
  \<^verbatim>\<open>unmarshalContact\<close> returns no contacts and no error for it, and the loop body writes
  nothing for a row that carries it: neither an \<^verbatim>\<open>unmarshal\<close> line nor a
  \<^verbatim>\<open>validation\<close> line.
\<close>

theorem null_payload_no_problem:
  assumes "decodes_null L"
  shows "unmarshalContact L ''null'' = ([], None)
     \<and> audit_row L W c resChan i ''null'' createdAt t =
         (if resChan
          then t @ [Send \<lparr>result_id = i, result_contacts = [],
                          result_createdAt = createdAt\<rparr>]
          else t)"
  using assms
  by (simp add: decodes_null_def unmarshalContact_def audit_row_def validateContacts_Nil)

theorem null_payload_no_problem_witness:
  "decodes_null example_libs
   \<and> unmarshalContact example_libs ''null'' = ([], None)
   \<and> audit_row example_libs example_io example_auditor False 7 ''null''
        ''2024-01-01T00:00:00Z'' [] = []"
proof -
  have h: "decodes_null example_libs"
    by (simp add: decodes_null_def example_Unmarshal_null)
  show ?thesis
    using h null_payload_no_problem
      [OF h, of example_io example_auditor False 7 "''2024-01-01T00:00:00Z''" "[]"]
    by simp
qed

end
